theory Spec2Isabelle
  imports Complex_Main
begin

section \<open>Exchange classifier (services/option\_greeks\_service.py)\<close>

text \<open>
  The four curated symbol sets of the module, as Python set literals of strings.
  Membership is Python's \<open>in\<close> on a set of \<open>str\<close>: exact, case-sensitive equality.
\<close>

definition NSE_INDEX_SYMBOLS :: "string set" where
  "NSE_INDEX_SYMBOLS =
     {''NIFTY'', ''BANKNIFTY'', ''FINNIFTY'', ''MIDCPNIFTY'',
      ''NIFTYNXT50'', ''NIFTYIT'', ''NIFTYPHARMA'', ''NIFTYBANK''}"

definition BSE_INDEX_SYMBOLS :: "string set" where
  "BSE_INDEX_SYMBOLS = {''SENSEX'', ''BANKEX'', ''SENSEX50''}"

definition CURRENCY_SYMBOLS :: "string set" where
  "CURRENCY_SYMBOLS = {''USDINR'', ''EURINR'', ''GBPINR'', ''JPYINR''}"

definition COMMODITY_SYMBOLS :: "string set" where
  "COMMODITY_SYMBOLS =
     {''GOLD'', ''GOLDM'', ''GOLDPETAL'', ''SILVER'', ''SILVERM'', ''SILVERMIC'',
      ''CRUDEOIL'', ''CRUDEOILM'', ''NATURALGAS'', ''COPPER'', ''ZINC'', ''LEAD'',
      ''ALUMINIUM'', ''NICKEL'', ''COTTONCANDY'', ''MENTHAOIL''}"

text \<open>
  \<^verbatim>\<open>get_underlying_exchange(base_symbol, options_exchange)\<close>: four tests in the order of
  the source, each returning at once, then the default.
\<close>

definition get_underlying_exchange :: "string \<Rightarrow> string \<Rightarrow> string" where
  "get_underlying_exchange base_symbol options_exchange =
     (if base_symbol \<in> NSE_INDEX_SYMBOLS then ''NSE_INDEX''
      else if base_symbol \<in> BSE_INDEX_SYMBOLS then ''BSE_INDEX''
      else if base_symbol \<in> CURRENCY_SYMBOLS \<or> options_exchange = ''CDS'' then ''CDS''
      else if base_symbol \<in> COMMODITY_SYMBOLS \<or> options_exchange = ''MCX'' then ''MCX''
      else ''NSE'')"


section \<open>Python values and exceptions\<close>

text \<open>
  Strings are ASCII strings: \<open>upper\<close> maps \<open>a\<close>..\<open>z\<close> to \<open>A\<close>..\<open>Z\<close> and leaves every other
  character alone, digits are \<open>0\<close>..\<open>9\<close>, and white space is what \<open>str.isspace\<close> accepts
  below code point 128. Text outside ASCII is not covered by the model.
\<close>

definition is_upper :: "char \<Rightarrow> bool" where
  "is_upper c = (65 \<le> (of_char c :: nat) \<and> (of_char c :: nat) \<le> 90)"

definition is_digit :: "char \<Rightarrow> bool" where
  "is_digit c = (48 \<le> (of_char c :: nat) \<and> (of_char c :: nat) \<le> 57)"

definition is_space :: "char \<Rightarrow> bool" where
  "is_space c = ((of_char c :: nat) \<in> {9, 10, 11, 12, 13, 28, 29, 30, 31, 32})"

definition upper_char :: "char \<Rightarrow> char" where
  "upper_char c =
     (case map_of (zip ''abcdefghijklmnopqrstuvwxyz'' ''ABCDEFGHIJKLMNOPQRSTUVWXYZ'') c of
        None \<Rightarrow> c
      | Some u \<Rightarrow> u)"

definition upper :: "string \<Rightarrow> string" where
  "upper s = map upper_char s"

text \<open>\<^verbatim>\<open>sub in s\<close> on strings: \<open>sub\<close> occurs as a contiguous block of \<open>s\<close>.\<close>

fun contains :: "string \<Rightarrow> string \<Rightarrow> bool" where
  "contains [] sub = (sub = [])"
| "contains (c # cs) sub = (take (length sub) (c # cs) = sub \<or> contains cs sub)"

text \<open>
  Decoded JSON and other dynamically typed values. A \<^verbatim>\<open>dict\<close> with string keys is an
  association list read with \<open>map_of\<close>. A \<^verbatim>\<open>float\<close> is the rational number it
  denotes (every finite double is one); \<^verbatim>\<open>nan\<close> and the infinities, and the rounding of
  a conversion to the nearest double, are not modelled.
\<close>

datatype pyval =
    PNone
  | PBool bool
  | PInt int
  | PFloat rat
  | PStr string
  | PList "pyval list"
  | PDict "(string \<times> pyval) list"

text \<open>
  Exceptions. A message written by this repository is kept as text; where an f-string
  appends \<^verbatim>\<open>str(e)\<close> of a caught exception, the message keeps the exception
  (\<open>TextExc\<close>; \<open>TextVal\<close> where it appends a value), and the text of an exception raised inside a library call (\<^verbatim>\<open>int\<close>,
  \<^verbatim>\<open>float\<close>, \<^verbatim>\<open>datetime\<close>, a comparison) is \<open>LibraryText\<close>: it is the interpreter's, not
  the repository's.
\<close>

datatype pyexc =
    ValueError message
  | KeyError string
  | TypeError
  | AttributeError
  | OverflowError
  | OtherError
and message =
    Text string
  | TextExc string pyexc
  | TextVal string pyval
  | LibraryText

text \<open>
  Sequencing of statements that may raise: the first exception ends the block.
\<close>

definition bind_exc :: "pyexc + 'a \<Rightarrow> ('a \<Rightarrow> pyexc + 'b) \<Rightarrow> pyexc + 'b" where
  "bind_exc m f = (case m of Inl e \<Rightarrow> Inl e | Inr x \<Rightarrow> f x)"

text \<open>\<^verbatim>\<open>d.get(key, default)\<close>; on anything but a \<^verbatim>\<open>dict\<close> the attribute is missing.\<close>

definition dict_get :: "pyval \<Rightarrow> string \<Rightarrow> pyval \<Rightarrow> pyexc + pyval" where
  "dict_get d key dflt =
     (case d of
        PDict kvs \<Rightarrow> (case map_of kvs key of None \<Rightarrow> Inr dflt | Some v \<Rightarrow> Inr v)
      | _ \<Rightarrow> Inl AttributeError)"

text \<open>Truth value of an object, as \<^verbatim>\<open>if x:\<close> and \<^verbatim>\<open>not x\<close> take it.\<close>

fun truthy :: "pyval \<Rightarrow> bool" where
  "truthy PNone = False"
| "truthy (PBool b) = b"
| "truthy (PInt i) = (i \<noteq> 0)"
| "truthy (PFloat r) = (r \<noteq> 0)"
| "truthy (PStr s) = (s \<noteq> [])"
| "truthy (PList xs) = (xs \<noteq> [])"
| "truthy (PDict kvs) = (kvs \<noteq> [])"

subsection \<open>\<^verbatim>\<open>int(str)\<close> and \<^verbatim>\<open>float(str)\<close>\<close>

definition strip :: "string \<Rightarrow> string" where
  "strip s = rev (dropWhile is_space (rev (dropWhile is_space s)))"

definition digit_val :: "char \<Rightarrow> nat" where
  "digit_val c = (of_char c :: nat) - 48"

definition digits_val :: "string \<Rightarrow> nat" where
  "digits_val ds = foldl (\<lambda>a c. 10 * a + digit_val c) 0 ds"

text \<open>
  Digits of an integer literal: a digit first and last, single underscores allowed
  between digits. The result is the digits with the underscores removed.
\<close>

fun int_digits :: "string \<Rightarrow> string option" where
  "int_digits [] = None"
| "int_digits [c] = (if is_digit c then Some [c] else None)"
| "int_digits (c # d # cs) =
     (if \<not> is_digit c then None
      else if d = CHR ''_'' then map_option (\<lambda>r. c # r) (int_digits cs)
      else map_option (\<lambda>r. c # r) (int_digits (d # cs)))"

text \<open>
  \<^verbatim>\<open>int(s)\<close> in base 10: white space stripped at both ends, an optional sign, then the
  digits. The interpreter's limit on the length of the digit string is not modelled.
\<close>

definition int_str :: "string \<Rightarrow> pyexc + int" where
  "int_str s =
     (let t = strip s;
          (neg, body) = (case t of
             c # cs \<Rightarrow> if c = CHR ''-'' then (True, cs)
                       else if c = CHR ''+'' then (False, cs) else (False, t)
           | [] \<Rightarrow> (False, t))
      in case int_digits body of
           None \<Rightarrow> Inl (ValueError LibraryText)
         | Some ds \<Rightarrow> Inr (if neg then - int (digits_val ds) else int (digits_val ds)))"

text \<open>
  A decimal literal without exponent: digits, an optional point, digits, with a digit
  on at least one side. This is all \<^verbatim>\<open>float\<close> can meet on a strike matched by
  \<^verbatim>\<open>[\d.]+\<close>.
\<close>

definition decimal_val :: "string \<Rightarrow> rat option" where
  "decimal_val s =
     (let ip = takeWhile is_digit s; r = dropWhile is_digit s
      in case r of
           [] \<Rightarrow> if ip = [] then None else Some (of_nat (digits_val ip))
         | c # fp \<Rightarrow>
             if c = CHR ''.'' \<and> list_all is_digit fp \<and> (ip \<noteq> [] \<or> fp \<noteq> [])
             then Some (of_nat (digits_val ip) + of_nat (digits_val fp) / 10 ^ length fp)
             else None)"

text \<open>
  \<^verbatim>\<open>float(s)\<close>: white space stripped, an optional sign, a decimal literal. Exponent
  notation, underscores between digits and the words \<^verbatim>\<open>inf\<close> and \<^verbatim>\<open>nan\<close>, which Python
  also accepts, are outside the model.
\<close>

definition float_str :: "string \<Rightarrow> pyexc + rat" where
  "float_str s =
     (let t = strip s;
          (neg, body) = (case t of
             c # cs \<Rightarrow> if c = CHR ''-'' then (True, cs)
                       else if c = CHR ''+'' then (False, cs) else (False, t)
           | [] \<Rightarrow> (False, t))
      in case decimal_val body of
           None \<Rightarrow> Inl (ValueError LibraryText)
         | Some r \<Rightarrow> Inr (if neg then - r else r))"

text \<open>
  \<^verbatim>\<open>float(x)\<close> and \<^verbatim>\<open>int(x)\<close> on a value. \<^verbatim>\<open>float\<close> of an integer raises
  \<^verbatim>\<open>OverflowError\<close> from the first integer that rounds to \<open>2 ^ 1024\<close>; \<^verbatim>\<open>int\<close>
  truncates a float towards zero.
\<close>

definition py_float :: "pyval \<Rightarrow> pyexc + rat" where
  "py_float v =
     (case v of
        PBool b \<Rightarrow> Inr (if b then 1 else 0)
      | PInt i \<Rightarrow>
          if \<bar>i\<bar> < 2 ^ 1024 - 2 ^ 970 then Inr (of_int i) else Inl OverflowError
      | PFloat r \<Rightarrow> Inr r
      | PStr s \<Rightarrow> float_str s
      | _ \<Rightarrow> Inl TypeError)"

definition py_int :: "pyval \<Rightarrow> pyexc + int" where
  "py_int v =
     (case v of
        PBool b \<Rightarrow> Inr (if b then 1 else 0)
      | PInt i \<Rightarrow> Inr i
      | PFloat r \<Rightarrow> Inr (if 0 \<le> r then \<lfloor>r\<rfloor> else \<lceil>r\<rceil>)
      | PStr s \<Rightarrow> int_str s
      | _ \<Rightarrow> Inl TypeError)"

section \<open>Broker market data adapter (broker/kotak/api/data.py)\<close>

text \<open>
  The collaborators of \<^verbatim>\<open>BrokerData\<close>: the two lookups of the symbol database, which
  return a string or \<^verbatim>\<open>None\<close> or raise, and the HTTP client. A reply of the client is
  a transport exception or a status code with the body; the body is given as the value
  \<^verbatim>\<open>json.loads\<close> makes of it, \<open>None\<close> when it is not JSON. The URL is built from the
  query and the filter name alone, so the client is a function of those two.
\<close>

datatype http_reply = TransportError | Reply int "pyval option"

record broker_env =
  get_token :: "string \<Rightarrow> string \<Rightarrow> pyexc + string option"
  get_brexchange :: "string \<Rightarrow> string \<Rightarrow> pyexc + string option"
  client_get :: "string \<Rightarrow> string \<Rightarrow> http_reply"

record quote_record =
  q_bid :: rat
  q_ask :: rat
  q_open :: rat
  q_high :: rat
  q_low :: rat
  q_ltp :: rat
  q_prev_close :: rat
  q_volume :: rat
  q_oi :: int

record level =
  price :: rat
  quantity :: int

record depth_record =
  bids :: "level list"
  asks :: "level list"
  totalbuyqty :: int
  totalsellqty :: int

definition get_kotak_exchange :: "string \<Rightarrow> string option" where
  "get_kotak_exchange exchange =
     map_of [(''NSE'', ''nse_cm''), (''BSE'', ''bse_cm''), (''NFO'', ''nse_fo''),
             (''BFO'', ''bse_fo''), (''CDS'', ''cde_fo''), (''MCX'', ''mcx_fo''),
             (''NSE_INDEX'', ''nse_cm''), (''BSE_INDEX'', ''bse_cm'')] exchange"

definition get_index_symbol :: "string \<Rightarrow> string" where
  "get_index_symbol symbol =
     (case map_of [(''NIFTY'', ''Nifty 50''), (''NIFTY50'', ''Nifty 50''),
                   (''BANKNIFTY'', ''Nifty Bank''), (''SENSEX'', ''SENSEX''),
                   (''BANKEX'', ''BANKEX''), (''FINNIFTY'', ''Nifty Fin Service''),
                   (''MIDCPNIFTY'', ''NIFTY MIDCAP 100'')] (upper symbol) of
        None \<Rightarrow> symbol
      | Some n \<Rightarrow> n)"

text \<open>
  \<^verbatim>\<open>_make_quotes_request\<close>: the decoded body on status 200, \<^verbatim>\<open>None\<close> on any other
  status and on every exception (of the transport, or of \<^verbatim>\<open>json.loads\<close>).
\<close>

definition make_quotes_request :: "broker_env \<Rightarrow> string \<Rightarrow> string \<Rightarrow> pyval" where
  "make_quotes_request env query filter_name =
     (case client_get env query filter_name of
        TransportError \<Rightarrow> PNone
      | Reply status_code body \<Rightarrow>
          if status_code = 200
          then (case body of None \<Rightarrow> PNone | Some response_data \<Rightarrow> response_data)
          else PNone)"

definition get_default_quote :: quote_record where
  "get_default_quote =
     \<lparr>q_bid = 0, q_ask = 0, q_open = 0, q_high = 0, q_low = 0, q_ltp = 0,
      q_prev_close = 0, q_volume = 0, q_oi = 0\<rparr>"

definition zero_level :: level where
  "zero_level = \<lparr>price = 0, quantity = 0\<rparr>"

definition get_default_depth :: depth_record where
  "get_default_depth =
     \<lparr>bids = replicate 5 zero_level, asks = replicate 5 zero_level,
      totalbuyqty = 0, totalsellqty = 0\<rparr>"

text \<open>
  The query of both operations: for an exchange whose upper-cased name contains
  \<^verbatim>\<open>INDEX\<close>, the static tables (a missing segment is formatted as \<^verbatim>\<open>None\<close>); otherwise
  the two database lookups, where a missing or empty result ends the operation with
  the default record (\<open>Inr None\<close> here).
\<close>

definition build_query :: "broker_env \<Rightarrow> string \<Rightarrow> string \<Rightarrow> pyexc + string option" where
  "build_query env symbol exchange =
     (if contains (upper exchange) ''INDEX''
      then Inr (Some ((case get_kotak_exchange exchange of None \<Rightarrow> ''None'' | Some k \<Rightarrow> k)
                      @ ''|'' @ get_index_symbol symbol))
      else
        bind_exc (get_token env symbol exchange) (\<lambda>psymbol.
        bind_exc (get_brexchange env symbol exchange) (\<lambda>brexchange.
        if psymbol = None \<or> psymbol = Some [] \<or> brexchange = None \<or> brexchange = Some []
        then Inr None
        else Inr (Some (the brexchange @ ''|'' @ the psymbol)))))"

text \<open>\<^verbatim>\<open>float(d.get(key, 0))\<close> and \<^verbatim>\<open>int(d.get(key, 0))\<close>.\<close>

definition get_float :: "pyval \<Rightarrow> string \<Rightarrow> pyexc + rat" where
  "get_float d key = bind_exc (dict_get d key (PInt 0)) py_float"

definition get_int :: "pyval \<Rightarrow> string \<Rightarrow> pyexc + int" where
  "get_int d key = bind_exc (dict_get d key (PInt 0)) py_int"

text \<open>
  The dictionary \<^verbatim>\<open>get_quotes\<close> builds from the first element of the response; the
  first \<^verbatim>\<open>.get\<close> is the one of the log line.
\<close>

definition quote_of :: "pyval \<Rightarrow> pyexc + quote_record" where
  "quote_of quote_data =
     bind_exc (dict_get quote_data ''display_symbol'' PNone) (\<lambda>_.
     bind_exc (dict_get quote_data ''ohlc'' (PDict [])) (\<lambda>ohlc_data.
     bind_exc (get_float quote_data ''total_buy'') (\<lambda>b.
     bind_exc (get_float quote_data ''total_sell'') (\<lambda>a.
     bind_exc (get_float ohlc_data ''open'') (\<lambda>op.
     bind_exc (get_float ohlc_data ''high'') (\<lambda>hi.
     bind_exc (get_float ohlc_data ''low'') (\<lambda>lo.
     bind_exc (get_float quote_data ''ltp'') (\<lambda>lt.
     bind_exc (get_float ohlc_data ''close'') (\<lambda>cl.
     bind_exc (get_float quote_data ''last_volume'') (\<lambda>vol.
     bind_exc (get_int quote_data ''open_int'') (\<lambda>oi.
     Inr \<lparr>q_bid = b, q_ask = a, q_open = op, q_high = hi, q_low = lo, q_ltp = lt,
          q_prev_close = cl, q_volume = vol, q_oi = oi\<rparr>)))))))))))"

text \<open>
  \<^verbatim>\<open>get_quotes\<close>: the body of the \<^verbatim>\<open>try\<close>, then the handler, which turns every
  exception into the default record.
\<close>

definition get_quotes_body :: "broker_env \<Rightarrow> string \<Rightarrow> string \<Rightarrow> pyexc + quote_record" where
  "get_quotes_body env symbol exchange =
     (case build_query env symbol exchange of
        Inl e \<Rightarrow> Inl e
      | Inr None \<Rightarrow> Inr get_default_quote
      | Inr (Some query) \<Rightarrow>
          (case make_quotes_request env query ''all'' of
             PList (quote_data # _) \<Rightarrow> quote_of quote_data
           | _ \<Rightarrow> Inr get_default_quote))"

definition get_quotes :: "broker_env \<Rightarrow> string \<Rightarrow> string \<Rightarrow> quote_record" where
  "get_quotes env symbol exchange =
     (case get_quotes_body env symbol exchange of
        Inl e \<Rightarrow> get_default_quote
      | Inr q \<Rightarrow> q)"

text \<open>
  \<^verbatim>\<open>get_depth\<close>. The loop over \<^verbatim>\<open>buy_data[:5]\<close> converts one level after the other and
  stops at the first exception; a \<^verbatim>\<open>buy\<close> entry that is not a list leaves the side
  empty. The two \<^verbatim>\<open>while\<close> loops append zero levels up to five.
\<close>

definition level_of :: "pyval \<Rightarrow> pyexc + level" where
  "level_of bid =
     bind_exc (get_float bid ''price'') (\<lambda>p.
     bind_exc (get_int bid ''quantity'') (\<lambda>q.
     Inr \<lparr>price = p, quantity = q\<rparr>))"

fun levels_of :: "pyval list \<Rightarrow> pyexc + level list" where
  "levels_of [] = Inr []"
| "levels_of (bid # rest) =
     bind_exc (level_of bid) (\<lambda>l.
     bind_exc (levels_of rest) (\<lambda>ls. Inr (l # ls)))"

definition side_levels :: "pyval \<Rightarrow> pyexc + level list" where
  "side_levels buy_data =
     (case buy_data of PList xs \<Rightarrow> levels_of (take 5 xs) | _ \<Rightarrow> Inr [])"

function pad_levels :: "level list \<Rightarrow> level list" where
  "pad_levels ls = (if length ls < 5 then pad_levels (ls @ [zero_level]) else ls)"
  by pat_completeness auto
termination
  by (relation "measure (\<lambda>ls. 5 - length ls)") auto

definition depth_of :: "pyval \<Rightarrow> pyexc + depth_record" where
  "depth_of target_quote =
     bind_exc (dict_get target_quote ''depth'' (PDict [])) (\<lambda>depth_data.
     bind_exc (dict_get depth_data ''buy'' (PList [])) (\<lambda>buy_data.
     bind_exc (side_levels buy_data) (\<lambda>bids0.
     bind_exc (dict_get depth_data ''sell'' (PList [])) (\<lambda>sell_data.
     bind_exc (side_levels sell_data) (\<lambda>asks0.
     let bs = pad_levels bids0; as = pad_levels asks0
     in Inr \<lparr>bids = bs, asks = as,
             totalbuyqty = sum_list (map quantity bs),
             totalsellqty = sum_list (map quantity as)\<rparr>)))))"

definition get_depth_body :: "broker_env \<Rightarrow> string \<Rightarrow> string \<Rightarrow> pyexc + depth_record" where
  "get_depth_body env symbol exchange =
     (case build_query env symbol exchange of
        Inl e \<Rightarrow> Inl e
      | Inr None \<Rightarrow> Inr get_default_depth
      | Inr (Some query) \<Rightarrow>
          (case make_quotes_request env query ''depth'' of
             PList (target_quote # _) \<Rightarrow> depth_of target_quote
           | _ \<Rightarrow> Inr get_default_depth))"

definition get_depth :: "broker_env \<Rightarrow> string \<Rightarrow> string \<Rightarrow> depth_record" where
  "get_depth env symbol exchange =
     (case get_depth_body env symbol exchange of
        Inl e \<Rightarrow> get_default_depth
      | Inr d \<Rightarrow> d)"

section \<open>Sample environments and payload predicates\<close>

text \<open>
  An environment whose lookups succeed and whose client answers every request with
  status 200 and the given decoded body, and one whose client answers with a given
  status and a body that is not JSON.
\<close>

definition fixed_reply_env :: "pyval \<Rightarrow> broker_env" where
  "fixed_reply_env v =
     \<lparr>get_token = (\<lambda>_ _. Inr (Some ''2885'')),
      get_brexchange = (\<lambda>_ _. Inr (Some ''nse_cm'')),
      client_get = (\<lambda>_ _. Reply 200 (Some v))\<rparr>"

definition status_env :: "int \<Rightarrow> broker_env" where
  "status_env c =
     \<lparr>get_token = (\<lambda>_ _. Inr (Some ''2885'')),
      get_brexchange = (\<lambda>_ _. Inr (Some ''nse_cm'')),
      client_get = (\<lambda>_ _. Reply c None)\<rparr>"

text \<open>A depth payload with three buy levels and six sell levels.\<close>

definition depth_payload :: pyval where
  "depth_payload =
     PList [PDict [(''depth'', PDict
       [(''buy'', PList [PDict [(''price'', PFloat 101), (''quantity'', PInt 10)],
                         PDict [(''price'', PFloat 100), (''quantity'', PInt 20)],
                         PDict [(''price'', PFloat 99), (''quantity'', PInt 30)]]),
        (''sell'', PList [PDict [(''price'', PFloat 102), (''quantity'', PInt 1)],
                          PDict [(''price'', PFloat 103), (''quantity'', PInt 2)],
                          PDict [(''price'', PFloat 104), (''quantity'', PInt 3)],
                          PDict [(''price'', PFloat 105), (''quantity'', PInt 4)],
                          PDict [(''price'', PFloat 106), (''quantity'', PInt 5)],
                          PDict [(''price'', PFloat 107), (''quantity'', PInt 6)]])])]]"


declare pad_levels.simps [simp del]

section \<open>Option symbols and expiry (services/option\_greeks\_service.py)\<close>

text \<open>
  A naive \<^verbatim>\<open>datetime\<close>. The constructor checks the ranges of its fields as the library
  does and raises \<^verbatim>\<open>ValueError\<close> outside them.
\<close>

record datetime =
  dt_year :: nat
  dt_month :: nat
  dt_day :: nat
  dt_hour :: nat
  dt_minute :: nat
  dt_second :: nat
  dt_microsecond :: nat

definition is_leap :: "nat \<Rightarrow> bool" where
  "is_leap y = (y mod 4 = 0 \<and> (y mod 100 \<noteq> 0 \<or> y mod 400 = 0))"

definition days_in_month :: "nat \<Rightarrow> nat \<Rightarrow> nat" where
  "days_in_month y m =
     (if m = 2 then (if is_leap y then 29 else 28)
      else if m \<in> {4, 6, 9, 11} then 30 else 31)"

definition datetime_new :: "int \<Rightarrow> int \<Rightarrow> int \<Rightarrow> int \<Rightarrow> int \<Rightarrow> pyexc + datetime" where
  "datetime_new y m d hh mm =
     (if 1 \<le> y \<and> y \<le> 9999 \<and> 1 \<le> m \<and> m \<le> 12 \<and>
         1 \<le> d \<and> d \<le> int (days_in_month (nat y) (nat m)) \<and>
         0 \<le> hh \<and> hh \<le> 23 \<and> 0 \<le> mm \<and> mm \<le> 59
      then Inr \<lparr>dt_year = nat y, dt_month = nat m, dt_day = nat d, dt_hour = nat hh,
                dt_minute = nat mm, dt_second = 0, dt_microsecond = 0\<rparr>
      else Inl (ValueError LibraryText))"

text \<open>
  \<^verbatim>\<open>a < b\<close> on naive datetimes compares the fields in order, year first. \<^verbatim>\<open>a - b\<close> is
  the difference of the days since 0001-01-01 (\<open>toordinal\<close>) and of the time of day;
  \<open>to_us\<close> counts it in microseconds.
\<close>

fun lex_less :: "nat list \<Rightarrow> nat list \<Rightarrow> bool" where
  "lex_less (x # xs) (y # ys) = (x < y \<or> (x = y \<and> lex_less xs ys))"
| "lex_less [] (y # ys) = True"
| "lex_less xs [] = False"

definition dt_fields :: "datetime \<Rightarrow> nat list" where
  "dt_fields a =
     [dt_year a, dt_month a, dt_day a, dt_hour a, dt_minute a, dt_second a, dt_microsecond a]"

definition dt_less :: "datetime \<Rightarrow> datetime \<Rightarrow> bool" where
  "dt_less a b = lex_less (dt_fields a) (dt_fields b)"

definition days_before_year :: "nat \<Rightarrow> nat" where
  "days_before_year y = (y - 1) * 365 + (y - 1) div 4 - (y - 1) div 100 + (y - 1) div 400"

definition days_before_month :: "nat \<Rightarrow> nat \<Rightarrow> nat" where
  "days_before_month y m = sum_list (map (days_in_month y) [1..<m])"

definition toordinal :: "datetime \<Rightarrow> nat" where
  "toordinal a = days_before_year (dt_year a) + days_before_month (dt_year a) (dt_month a) + dt_day a"

definition to_us :: "datetime \<Rightarrow> int" where
  "to_us a =
     (int (toordinal a) * 86400 + int (dt_hour a) * 3600 + int (dt_minute a) * 60
        + int (dt_second a)) * 1000000 + int (dt_microsecond a)"

text \<open>\<^verbatim>\<open>strftime("%d-%b-%Y")\<close> in the C locale.\<close>

definition month_abbr :: "nat \<Rightarrow> string" where
  "month_abbr m =
     [''Jan'', ''Feb'', ''Mar'', ''Apr'', ''May'', ''Jun'',
      ''Jul'', ''Aug'', ''Sep'', ''Oct'', ''Nov'', ''Dec''] ! (m - 1)"

definition digit_char :: "nat \<Rightarrow> char" where
  "digit_char n = ''0123456789'' ! (n mod 10)"

definition strftime_d_b_Y :: "datetime \<Rightarrow> string" where
  "strftime_d_b_Y a =
     [digit_char (dt_day a div 10), digit_char (dt_day a)] @ ''-'' @ month_abbr (dt_month a) @ ''-'' @
     [digit_char (dt_year a div 1000), digit_char (dt_year a div 100),
      digit_char (dt_year a div 10), digit_char (dt_year a)]"

text \<open>
  The regular expression of \<^verbatim>\<open>parse_option_symbol\<close>,
  \<^verbatim>\<open>([A-Z]+)(\d{2})([A-Z]{3})(\d{2})([\d.]+)(CE|PE)\<close>, applied with \<^verbatim>\<open>re.match\<close>: anchored at the
  start of the string, not at its end. Each greedy run is followed by a character class
  disjoint from it, so the run is the longest one and backtracking cannot help.
\<close>

definition is_strike_char :: "char \<Rightarrow> bool" where
  "is_strike_char c = (is_digit c \<or> c = CHR ''.'')"

definition match_option_symbol ::
  "string \<Rightarrow> (string \<times> string \<times> string \<times> string \<times> string \<times> string) option" where
  "match_option_symbol u =
     (let base_symbol = takeWhile is_upper u; r1 = dropWhile is_upper u;
          day = take 2 r1; r2 = drop 2 r1;
          month_str = take 3 r2; r3 = drop 3 r2;
          year = take 2 r3; r4 = drop 2 r3;
          strike_str = takeWhile is_strike_char r4; r5 = dropWhile is_strike_char r4;
          opt_type = take 2 r5
      in if base_symbol \<noteq> [] \<and> length day = 2 \<and> list_all is_digit day \<and>
            length month_str = 3 \<and> list_all is_upper month_str \<and>
            length year = 2 \<and> list_all is_digit year \<and> strike_str \<noteq> [] \<and>
            (opt_type = ''CE'' \<or> opt_type = ''PE'')
         then Some (base_symbol, day, month_str, year, strike_str, opt_type)
         else None)"

definition month_map :: "string \<rightharpoonup> int" where
  "month_map =
     map_of [(''JAN'', 1), (''FEB'', 2), (''MAR'', 3), (''APR'', 4), (''MAY'', 5), (''JUN'', 6),
             (''JUL'', 7), (''AUG'', 8), (''SEP'', 9), (''OCT'', 10), (''NOV'', 11), (''DEC'', 12)]"

text \<open>\<^verbatim>\<open>s.split(sep)\<close> with a one-character separator.\<close>

fun split_on :: "char \<Rightarrow> string \<Rightarrow> string list" where
  "split_on sep [] = [[]]"
| "split_on sep (c # cs) =
     (if c = sep then [] # split_on sep cs
      else (c # hd (split_on sep cs)) # tl (split_on sep cs))"

definition squote :: string where
  "squote = [CHR 0x27]"

text \<open>
  The expiry time of day: the \<^verbatim>\<open>if custom_expiry_time:\<close> branch with its inner
  \<^verbatim>\<open>try\<close>, whose handler wraps every exception into a \<^verbatim>\<open>ValueError\<close>, and the exchange
  defaults otherwise. \<^verbatim>\<open>None\<close> and the empty string are both false.
\<close>

definition custom_time_body :: "string \<Rightarrow> pyexc + (int \<times> int)" where
  "custom_time_body custom_expiry_time =
     (let time_parts = split_on CHR '':'' custom_expiry_time
      in if length time_parts \<noteq> 2
         then Inl (ValueError (Text (''Invalid expiry_time format: '' @ custom_expiry_time
                @ ''. Use HH:MM format (e.g., '' @ squote @ ''15:30'' @ squote @ '', ''
                @ squote @ ''19:00'' @ squote @ '')'')))
         else
           bind_exc (int_str (time_parts ! 0)) (\<lambda>expiry_hour.
           bind_exc (int_str (time_parts ! 1)) (\<lambda>expiry_minute.
           if \<not> (0 \<le> expiry_hour \<and> expiry_hour \<le> 23) \<or>
              \<not> (0 \<le> expiry_minute \<and> expiry_minute \<le> 59)
           then Inl (ValueError (Text (''Invalid expiry_time values: '' @ custom_expiry_time
                  @ ''. Hour must be 0-23, minute must be 0-59'')))
           else Inr (expiry_hour, expiry_minute))))"

definition expiry_time_of :: "string \<Rightarrow> string option \<Rightarrow> pyexc + (int \<times> int)" where
  "expiry_time_of exchange custom_expiry_time =
     (if custom_expiry_time \<noteq> None \<and> custom_expiry_time \<noteq> Some []
      then (case custom_time_body (the custom_expiry_time) of
              Inl e \<Rightarrow> Inl (ValueError (TextExc (''Failed to parse expiry_time '' @ squote
                         @ the custom_expiry_time @ squote @ '': '') e))
            | Inr hm \<Rightarrow> Inr hm)
      else if exchange = ''MCX'' then Inr (23, 30)
      else if exchange = ''CDS'' then Inr (12, 30)
      else Inr (15, 30))"

text \<open>
  \<^verbatim>\<open>parse_option_symbol\<close>: the body of the outer \<^verbatim>\<open>try\<close>, in the order of the source
  (match, expiry time, the arguments of \<^verbatim>\<open>datetime\<close> from left to right, the strike),
  then the handler, which wraps every exception into a \<^verbatim>\<open>ValueError\<close>.
\<close>

definition parse_body ::
  "string \<Rightarrow> string \<Rightarrow> string option \<Rightarrow> pyexc + (string \<times> datetime \<times> rat \<times> string)" where
  "parse_body symbol exchange custom_expiry_time =
     (case match_option_symbol (upper symbol) of
        None \<Rightarrow> Inl (ValueError (Text (''Invalid option symbol format: '' @ symbol)))
      | Some (base_symbol, day, month_str, year, strike_str, opt_type) \<Rightarrow>
          bind_exc (expiry_time_of exchange custom_expiry_time) (\<lambda>(expiry_hour, expiry_minute).
          bind_exc (int_str (''20'' @ year)) (\<lambda>y.
          bind_exc (case month_map month_str of None \<Rightarrow> Inl (KeyError month_str)
                    | Some m \<Rightarrow> Inr m) (\<lambda>m.
          bind_exc (int_str day) (\<lambda>d.
          bind_exc (datetime_new y m d expiry_hour expiry_minute) (\<lambda>expiry.
          bind_exc (float_str strike_str) (\<lambda>strike.
          Inr (base_symbol, expiry, strike, upper opt_type))))))))"

definition parse_option_symbol ::
  "string \<Rightarrow> string \<Rightarrow> string option \<Rightarrow> pyexc + (string \<times> datetime \<times> rat \<times> string)" where
  "parse_option_symbol symbol exchange custom_expiry_time =
     (case parse_body symbol exchange custom_expiry_time of
        Inl e \<Rightarrow> Inl (ValueError (TextExc (''Failed to parse option symbol '' @ symbol @ '': '') e))
      | Inr r \<Rightarrow> Inr r)"

section \<open>Greeks calculation (services/option\_greeks\_service.py)\<close>

text \<open>
  What the module takes from outside: the flag set when \<^verbatim>\<open>mibian\<close> was imported, the
  clock, the two uses of \<^verbatim>\<open>mibian.BS\<close> (implied volatility from a call or put price, and
  the model at a given volatility), each of which may raise, and \<^verbatim>\<open>get_quotes\<close> of the
  quotes service, which returns \<^verbatim>\<open>(success, response, status_code)\<close> or raises.
\<close>

record bs_model =
  callDelta :: rat
  putDelta :: rat
  callTheta :: rat
  putTheta :: rat
  callRho :: rat
  putRho :: rat
  gamma :: rat
  vega :: rat

record greeks_env =
  MIBIAN_AVAILABLE :: bool
  now :: datetime
  bs_implied_volatility :: "bool \<Rightarrow> rat list \<Rightarrow> rat \<Rightarrow> pyexc + rat"
  bs_at_volatility :: "rat list \<Rightarrow> rat \<Rightarrow> pyexc + bs_model"
  quotes_service :: "string \<Rightarrow> string \<Rightarrow> string option \<Rightarrow> pyexc + (bool \<times> pyval \<times> int)"

record greeks_values =
  g_delta :: rat
  g_gamma :: rat
  g_theta :: rat
  g_vega :: rat
  g_rho :: rat

record greeks_result =
  r_symbol :: string
  r_exchange :: string
  r_underlying :: string
  r_strike :: rat
  r_option_type :: string
  r_expiry_date :: string
  r_days_to_expiry :: rat
  r_spot_price :: rat
  r_option_price :: rat
  r_interest_rate :: rat
  r_implied_volatility :: rat
  r_greeks :: greeks_values

text \<open>
  A response dictionary: \<^verbatim>\<open>{'status': 'error', 'message': m}\<close> or the success
  dictionary. The functions return it between the success flag and the status code.
\<close>

datatype response = ErrorResponse message | SuccessResponse greeks_result

type_synonym outcome = "bool \<times> response \<times> int"

definition DEFAULT_INTEREST_RATES :: "(string \<times> rat) list" where
  "DEFAULT_INTEREST_RATES = [(''NFO'', 0), (''BFO'', 0), (''CDS'', 0), (''MCX'', 0)]"

definition check_mibian_availability :: "greeks_env \<Rightarrow> bool \<times> response option \<times> int option" where
  "check_mibian_availability env =
     (if \<not> MIBIAN_AVAILABLE env
      then (False,
            Some (ErrorResponse (Text
              ''Option Greeks calculation requires mibian library. Install with: pip install mibian'')),
            Some 500)
      else (True, None, None))"

text \<open>
  \<^verbatim>\<open>calculate_time_to_expiry\<close>, with the clock read from the environment. The number
  of days is the exact quotient here and its nearest double in the source. Both tests of
  the function come out the same in either arithmetic: the first compares datetimes, not
  floats, and the second compares with \<open>0.01\<close> a quotient that is either at least
  864 seconds over 86400 or a whole microsecond below it.
\<close>

definition calculate_time_to_expiry :: "greeks_env \<Rightarrow> datetime \<Rightarrow> rat" where
  "calculate_time_to_expiry env expiry =
     (let current_time = now env
      in if dt_less expiry current_time then 0
         else
           let days_to_expiry =
                 (of_int (to_us expiry - to_us current_time) / 1000000) / (60 * 60 * 24)
           in if days_to_expiry < 1 / 100 then 1 / 100 else days_to_expiry)"

text \<open>\<^verbatim>\<open>round(x, n)\<close>: to \<open>n\<close> decimals, a tie to the even neighbour.\<close>

definition py_round :: "rat \<Rightarrow> nat \<Rightarrow> rat" where
  "py_round x n =
     (let y = x * 10 ^ n; f = \<lfloor>y\<rfloor>; d = y - of_int f
      in of_int (if d < 1 / 2 then f else if 1 / 2 < d then f + 1
                 else if even f then f else f + 1) / 10 ^ n)"

text \<open>\<^verbatim>\<open>x <= 0\<close> on a value: defined on numbers, a \<^verbatim>\<open>TypeError\<close> otherwise.\<close>

definition le_zero :: "pyval \<Rightarrow> pyexc + bool" where
  "le_zero v =
     (case v of
        PBool b \<Rightarrow> Inr (\<not> b)
      | PInt i \<Rightarrow> Inr (i \<le> 0)
      | PFloat r \<Rightarrow> Inr (r \<le> 0)
      | _ \<Rightarrow> Inl TypeError)"

definition num_of :: "pyval \<Rightarrow> rat" where
  "num_of v =
     (case v of PBool b \<Rightarrow> (if b then 1 else 0) | PInt i \<Rightarrow> of_int i | PFloat r \<Rightarrow> r | _ \<Rightarrow> 0)"

text \<open>
  The statements of \<^verbatim>\<open>calculate_greeks\<close> that follow the expiry test: the interest rate,
  the positivity checks, the two calls of the pricing library inside their own
  \<^verbatim>\<open>try\<close> blocks, and the rounded response.
\<close>

definition greeks_after_expiry_check ::
  "greeks_env \<Rightarrow> string \<Rightarrow> string \<Rightarrow> string \<Rightarrow> datetime \<Rightarrow> rat \<Rightarrow> string \<Rightarrow>
   pyval \<Rightarrow> pyval \<Rightarrow> rat option \<Rightarrow> rat \<Rightarrow> pyexc + outcome" where
  "greeks_after_expiry_check env option_symbol exchange base_symbol expiry strike opt_type
       spot_price option_price interest_rate time_to_expiry =
     (let rate = (case interest_rate of
                    None \<Rightarrow> (case map_of DEFAULT_INTEREST_RATES exchange of
                                None \<Rightarrow> 0 | Some r \<Rightarrow> r)
                  | Some r \<Rightarrow> r);
          interest_rate_decimal = rate / 100
      in
        bind_exc (le_zero spot_price) (\<lambda>spot_bad.
        bind_exc (if spot_bad then Inr True else le_zero option_price) (\<lambda>bad.
        if bad
        then Inr (False, ErrorResponse (Text ''Spot price and option price must be positive''), 400)
        else if strike \<le> 0
        then Inr (False, ErrorResponse (Text ''Strike price must be positive''), 400)
        else
          let params = [num_of spot_price, strike, interest_rate_decimal, time_to_expiry]
          in case bs_implied_volatility env (opt_type = ''CE'') params (num_of option_price) of
               Inl e \<Rightarrow>
                 Inr (False,
                      ErrorResponse (TextExc ''Failed to calculate Implied Volatility: '' e), 500)
             | Inr implied_volatility \<Rightarrow>
                (case bs_at_volatility env params implied_volatility of
                   Inl e \<Rightarrow>
                     Inr (False, ErrorResponse (TextExc ''Failed to calculate Greeks: '' e), 500)
                 | Inr greek_model \<Rightarrow>
                     Inr (True,
                          SuccessResponse
                            \<lparr>r_symbol = option_symbol, r_exchange = exchange,
                             r_underlying = base_symbol, r_strike = py_round strike 2,
                             r_option_type = opt_type,
                             r_expiry_date = strftime_d_b_Y expiry,
                             r_days_to_expiry = py_round time_to_expiry 4,
                             r_spot_price = py_round (num_of spot_price) 2,
                             r_option_price = py_round (num_of option_price) 2,
                             r_interest_rate = py_round rate 2,
                             r_implied_volatility = py_round implied_volatility 2,
                             r_greeks =
                               \<lparr>g_delta = py_round (if opt_type = ''CE'' then callDelta greek_model
                                                     else putDelta greek_model) 4,
                                g_gamma = py_round (gamma greek_model) 6,
                                g_theta = py_round (if opt_type = ''CE'' then callTheta greek_model
                                                     else putTheta greek_model) 4,
                                g_vega = py_round (vega greek_model) 4,
                                g_rho = py_round (if opt_type = ''CE'' then callRho greek_model
                                                   else putRho greek_model) 6\<rparr>\<rparr>,
                          200)))))"

text \<open>
  \<^verbatim>\<open>calculate_greeks\<close>: the body of the \<^verbatim>\<open>try\<close>, then the two handlers, the first
  for \<^verbatim>\<open>ValueError\<close> (status 400, the message of the exception), the second for every
  other exception (status 500). The \<^verbatim>\<open>api_key\<close> argument is not used by the source.
\<close>

definition calculate_greeks_body ::
  "greeks_env \<Rightarrow> string \<Rightarrow> string \<Rightarrow> pyval \<Rightarrow> pyval \<Rightarrow> rat option \<Rightarrow> string option \<Rightarrow>
   pyexc + outcome" where
  "calculate_greeks_body env option_symbol exchange spot_price option_price interest_rate
       expiry_time =
     (case check_mibian_availability env of
        (False, error_response, status_code) \<Rightarrow> Inr (False, the error_response, the status_code)
      | (True, _, _) \<Rightarrow>
          bind_exc (parse_option_symbol option_symbol exchange expiry_time)
            (\<lambda>(base_symbol, expiry, strike, opt_type).
          let time_to_expiry = calculate_time_to_expiry env expiry
          in if time_to_expiry \<le> 0
             then Inr (False,
                       ErrorResponse (Text (''Option has expired on '' @ strftime_d_b_Y expiry)),
                       400)
             else greeks_after_expiry_check env option_symbol exchange base_symbol expiry strike
                    opt_type spot_price option_price interest_rate time_to_expiry))"

definition greeks_handlers :: "pyexc + outcome \<Rightarrow> outcome" where
  "greeks_handlers r =
     (case r of
        Inr res \<Rightarrow> res
      | Inl (ValueError m) \<Rightarrow> (False, ErrorResponse m, 400)
      | Inl e \<Rightarrow>
          (False, ErrorResponse (TextExc ''Failed to calculate option Greeks: '' e), 500))"

definition calculate_greeks ::
  "greeks_env \<Rightarrow> string \<Rightarrow> string \<Rightarrow> pyval \<Rightarrow> pyval \<Rightarrow> rat option \<Rightarrow> string option \<Rightarrow>
   outcome" where
  "calculate_greeks env option_symbol exchange spot_price option_price interest_rate
       expiry_time =
     greeks_handlers
       (calculate_greeks_body env option_symbol exchange spot_price option_price
          interest_rate expiry_time)"

text \<open>
  \<^verbatim>\<open>get_option_greeks\<close>: parse, choose the underlying symbol and exchange, fetch the two
  quotes, then \<^verbatim>\<open>calculate_greeks\<close>. An empty override counts as absent. The source
  writes the fetch twice, for the underlying and for the option, with two texts that
  differ; \<open>fetch_ltp\<close> is that block: the call of the quotes service, the early return
  when it reports no success, the two \<^verbatim>\<open>.get\<close> calls and the early return when the
  price is false. The handler of the \<^verbatim>\<open>try\<close> answers every exception with status 500.
\<close>

definition fetch_ltp ::
  "greeks_env \<Rightarrow> string \<Rightarrow> string \<Rightarrow> string option \<Rightarrow> string \<Rightarrow> string \<Rightarrow>
   pyexc + (outcome + pyval)" where
  "fetch_ltp env symbol exchange api_key failed_text missing_text =
     bind_exc (quotes_service env symbol exchange api_key) (\<lambda>(success, quote_response, status_code).
     if \<not> success
     then bind_exc (dict_get quote_response ''message'' (PStr ''Unknown error'')) (\<lambda>m.
          Inr (Inl (False, ErrorResponse (TextVal failed_text m), status_code)))
     else
       bind_exc (dict_get quote_response ''data'' (PDict [])) (\<lambda>data.
       bind_exc (dict_get data ''ltp'' PNone) (\<lambda>price.
       if \<not> truthy price
       then Inr (Inl (False, ErrorResponse (Text missing_text), 404))
       else Inr (Inr price))))"

definition spot_symbol_of :: "string option \<Rightarrow> string \<Rightarrow> string" where
  "spot_symbol_of underlying_symbol base_symbol =
     (if underlying_symbol \<noteq> None \<and> underlying_symbol \<noteq> Some []
      then the underlying_symbol else base_symbol)"

definition spot_exchange_of :: "string option \<Rightarrow> string \<Rightarrow> string \<Rightarrow> string" where
  "spot_exchange_of underlying_exchange base_symbol exchange =
     (if underlying_exchange \<noteq> None \<and> underlying_exchange \<noteq> Some []
      then the underlying_exchange else get_underlying_exchange base_symbol exchange)"

definition get_option_greeks_body ::
  "greeks_env \<Rightarrow> string \<Rightarrow> string \<Rightarrow> rat option \<Rightarrow> string option \<Rightarrow> string option \<Rightarrow>
   string option \<Rightarrow> string option \<Rightarrow> pyexc + outcome" where
  "get_option_greeks_body env option_symbol exchange interest_rate underlying_symbol
       underlying_exchange expiry_time api_key =
     bind_exc (parse_option_symbol option_symbol exchange expiry_time)
       (\<lambda>(base_symbol, expiry, strike, opt_type).
     let spot_symbol = spot_symbol_of underlying_symbol base_symbol;
         spot_exchange = spot_exchange_of underlying_exchange base_symbol exchange
     in
       bind_exc (fetch_ltp env spot_symbol spot_exchange api_key
                   ''Failed to fetch underlying price: '' ''Underlying LTP not available'')
         (\<lambda>spot.
       case spot of
         Inl failure \<Rightarrow> Inr failure
       | Inr spot_price \<Rightarrow>
           bind_exc (fetch_ltp env option_symbol exchange api_key
                       ''Failed to fetch option price: '' ''Option LTP not available'')
             (\<lambda>opt.
           case opt of
             Inl failure \<Rightarrow> Inr failure
           | Inr option_price \<Rightarrow>
               Inr (calculate_greeks env option_symbol exchange spot_price option_price
                      interest_rate expiry_time))))"

definition get_option_greeks ::
  "greeks_env \<Rightarrow> string \<Rightarrow> string \<Rightarrow> rat option \<Rightarrow> string option \<Rightarrow> string option \<Rightarrow>
   string option \<Rightarrow> string option \<Rightarrow> outcome" where
  "get_option_greeks env option_symbol exchange interest_rate underlying_symbol
       underlying_exchange expiry_time api_key =
     (case get_option_greeks_body env option_symbol exchange interest_rate underlying_symbol
             underlying_exchange expiry_time api_key of
        Inr r \<Rightarrow> r
      | Inl e \<Rightarrow> (False, ErrorResponse (TextExc ''Failed to get option Greeks: '' e), 500))"

section \<open>Sample inputs and response predicates\<close>

text \<open>
  A response of the quotes service that is a dictionary whose \<^verbatim>\<open>data\<close> entry, when
  present, is a dictionary; and the value it holds under \<^verbatim>\<open>data\<close>, \<^verbatim>\<open>ltp\<close>, if any.
\<close>

definition quote_shaped :: "pyval \<Rightarrow> bool" where
  "quote_shaped resp =
     (case resp of
        PDict kvs \<Rightarrow> (case map_of kvs ''data'' of None \<Rightarrow> True | Some (PDict d) \<Rightarrow> True
                        | Some _ \<Rightarrow> False)
      | _ \<Rightarrow> False)"

definition ltp_field :: "pyval \<Rightarrow> pyval option" where
  "ltp_field resp =
     (case resp of
        PDict kvs \<Rightarrow> (case map_of kvs ''data'' of Some (PDict d) \<Rightarrow> map_of d ''ltp'' | _ \<Rightarrow> None)
      | _ \<Rightarrow> None)"

text \<open>
  An environment with the pricing library present, a given clock, a library that
  answers with fixed numbers, and a quotes service that answers from a table.
\<close>

definition sample_model :: bs_model where
  "sample_model =
     \<lparr>callDelta = 1 / 2, putDelta = - 1 / 2, callTheta = - 10, putTheta = - 9,
      callRho = 1 / 10, putRho = - 1 / 10, gamma = 1 / 1000, vega = 5\<rparr>"

definition sample_env :: "datetime \<Rightarrow> (string \<times> pyval) list \<Rightarrow> greeks_env" where
  "sample_env t quotes =
     \<lparr>MIBIAN_AVAILABLE = True, now = t,
      bs_implied_volatility = (\<lambda>_ _ _. Inr 15),
      bs_at_volatility = (\<lambda>_ _. Inr sample_model),
      quotes_service = (\<lambda>s _ _. case map_of quotes s of
                                   None \<Rightarrow> Inr (False, PDict [(''message'', PStr ''not found'')], 404)
                                 | Some r \<Rightarrow> Inr (True, r, 200))\<rparr>"

definition at_time :: "nat \<Rightarrow> nat \<Rightarrow> nat \<Rightarrow> nat \<Rightarrow> nat \<Rightarrow> datetime" where
  "at_time y m d hh mm =
     \<lparr>dt_year = y, dt_month = m, dt_day = d, dt_hour = hh, dt_minute = mm,
      dt_second = 0, dt_microsecond = 0\<rparr>"


definition default_expiry_time :: "string \<Rightarrow> int \<times> int" where
  "default_expiry_time exchange =
     (if exchange = ''MCX'' then (23, 30) else if exchange = ''CDS'' then (12, 30) else (15, 30))"

definition quotes_without_ltp :: "(string \<times> pyval) list" where
  "quotes_without_ltp =
     [(''NIFTY'', PDict [(''status'', PStr ''success''), (''data'', PDict [(''volume'', PInt 0)])])]"

definition quotes_without_option_ltp :: "(string \<times> pyval) list" where
  "quotes_without_option_ltp =
     [(''NIFTY'', PDict [(''status'', PStr ''success''),
                         (''data'', PDict [(''ltp'', PFloat 24100)])]),
      (''NIFTY28NOV2424000CE'', PDict [(''status'', PStr ''success'')])]"


section \<open>Properties of the exchange classifier\<close>


lemma symbol_sets_disjoint:
  "NSE_INDEX_SYMBOLS \<inter> BSE_INDEX_SYMBOLS = {}"
  "NSE_INDEX_SYMBOLS \<inter> CURRENCY_SYMBOLS = {}"
  "NSE_INDEX_SYMBOLS \<inter> COMMODITY_SYMBOLS = {}"
  "BSE_INDEX_SYMBOLS \<inter> CURRENCY_SYMBOLS = {}"
  "BSE_INDEX_SYMBOLS \<inter> COMMODITY_SYMBOLS = {}"
  "CURRENCY_SYMBOLS \<inter> COMMODITY_SYMBOLS = {}"
  by (simp_all add: NSE_INDEX_SYMBOLS_def BSE_INDEX_SYMBOLS_def CURRENCY_SYMBOLS_def
      COMMODITY_SYMBOLS_def)

text \<open>
  Claim C4. The classifier is a function of its two arguments alone. It tests the
  underlying against the NSE index set, the BSE index set, the currency pairs and the
  commodities, in that order; the third test also succeeds when the options exchange is
  CDS and the fourth when it is MCX, whether or not the underlying is in the curated
  set; an underlying that passes no test is classified NSE.
\<close>

theorem get_underlying_exchange_ordered:
  "(b \<in> NSE_INDEX_SYMBOLS \<longrightarrow> get_underlying_exchange b x = ''NSE_INDEX'') \<and>
   (b \<notin> NSE_INDEX_SYMBOLS \<and> b \<in> BSE_INDEX_SYMBOLS \<longrightarrow>
      get_underlying_exchange b x = ''BSE_INDEX'') \<and>
   (b \<notin> NSE_INDEX_SYMBOLS \<and> b \<notin> BSE_INDEX_SYMBOLS \<and>
      (b \<in> CURRENCY_SYMBOLS \<or> x = ''CDS'') \<longrightarrow>
      get_underlying_exchange b x = ''CDS'') \<and>
   (b \<notin> NSE_INDEX_SYMBOLS \<and> b \<notin> BSE_INDEX_SYMBOLS \<and>
      b \<notin> CURRENCY_SYMBOLS \<and> x \<noteq> ''CDS'' \<and>
      (b \<in> COMMODITY_SYMBOLS \<or> x = ''MCX'') \<longrightarrow>
      get_underlying_exchange b x = ''MCX'') \<and>
   (b \<notin> NSE_INDEX_SYMBOLS \<and> b \<notin> BSE_INDEX_SYMBOLS \<and>
      b \<notin> CURRENCY_SYMBOLS \<and> b \<notin> COMMODITY_SYMBOLS \<and>
      x \<noteq> ''CDS'' \<and> x \<noteq> ''MCX'' \<longrightarrow>
      get_underlying_exchange b x = ''NSE'')"
  by (simp add: get_underlying_exchange_def)

theorem get_underlying_exchange_ordered_witness:
  "get_underlying_exchange ''NIFTY'' ''NFO'' = ''NSE_INDEX'' \<and>
   get_underlying_exchange ''SENSEX'' ''BFO'' = ''BSE_INDEX'' \<and>
   get_underlying_exchange ''USDINR'' ''NFO'' = ''CDS'' \<and>
   get_underlying_exchange ''ABCINR'' ''CDS'' = ''CDS'' \<and>
   get_underlying_exchange ''GOLD'' ''NFO'' = ''MCX'' \<and>
   get_underlying_exchange ''KAPAS'' ''MCX'' = ''MCX'' \<and>
   get_underlying_exchange ''RELIANCE'' ''NFO'' = ''NSE''"
  using get_underlying_exchange_ordered [of "''NIFTY''" "''NFO''"]
    get_underlying_exchange_ordered [of "''SENSEX''" "''BFO''"]
    get_underlying_exchange_ordered [of "''USDINR''" "''NFO''"]
    get_underlying_exchange_ordered [of "''ABCINR''" "''CDS''"]
    get_underlying_exchange_ordered [of "''GOLD''" "''NFO''"]
    get_underlying_exchange_ordered [of "''KAPAS''" "''MCX''"]
    get_underlying_exchange_ordered [of "''RELIANCE''" "''NFO''"]
  by (simp add: NSE_INDEX_SYMBOLS_def BSE_INDEX_SYMBOLS_def CURRENCY_SYMBOLS_def
      COMMODITY_SYMBOLS_def)

section \<open>Properties of the market data adapter\<close>

lemma bind_exc_simps [simp]:
  "bind_exc (Inl e) f = Inl e" "bind_exc (Inr x) f = f x"
  by (simp_all add: bind_exc_def)

lemma bind_exc_eq_Inr:
  "bind_exc m f = Inr y \<longleftrightarrow> (\<exists>x. m = Inr x \<and> f x = Inr y)"
  by (cases m) simp_all

lemma pad_levels_eq: "pad_levels ls = ls @ replicate (5 - length ls) zero_level"
proof (induction ls rule: pad_levels.induct)
  case (1 ls)
  show ?case
  proof (cases "length ls < 5")
    case True
    then have "pad_levels ls = pad_levels (ls @ [zero_level])" by (subst pad_levels.simps) simp
    also have "\<dots> = (ls @ [zero_level]) @ replicate (5 - length (ls @ [zero_level])) zero_level"
      using 1 True by simp
    also have "\<dots> = ls @ replicate (5 - length ls) zero_level"
      using True by (simp add: replicate_append_same Suc_diff_Suc flip: replicate_Suc)
    finally show ?thesis .
  next
    case False
    then show ?thesis by (subst pad_levels.simps) simp
  qed
qed

lemma levels_of_all2:
  "levels_of xs = Inr ls \<Longrightarrow> list_all2 (\<lambda>v l. level_of v = Inr l) xs ls"
  by (induction xs arbitrary: ls) (auto simp: bind_exc_eq_Inr)

lemma length_pad_levels: "length ls \<le> 5 \<Longrightarrow> length (pad_levels ls) = 5"
  by (simp add: pad_levels_eq)

lemma side_levels_length: "side_levels v = Inr ls \<Longrightarrow> length ls \<le> 5"
  by (auto simp: side_levels_def split: pyval.splits dest!: levels_of_all2 list_all2_lengthD)

lemma depth_of_shape:
  assumes "depth_of tq = Inr d"
  shows "length (bids d) = 5 \<and> length (asks d) = 5 \<and>
         totalbuyqty d = sum_list (map quantity (bids d)) \<and>
         totalsellqty d = sum_list (map quantity (asks d))"
  using assms
  by (auto simp: depth_of_def bind_exc_eq_Inr Let_def length_pad_levels side_levels_length)

lemma default_depth_shape:
  "length (bids get_default_depth) = 5 \<and> length (asks get_default_depth) = 5 \<and>
   totalbuyqty get_default_depth = sum_list (map quantity (bids get_default_depth)) \<and>
   totalsellqty get_default_depth = sum_list (map quantity (asks get_default_depth))"
  by (simp add: get_default_depth_def zero_level_def sum_list_replicate)

lemma get_depth_cases:
  "get_depth env s x = get_default_depth \<or>
   (\<exists>q tq rest. build_query env s x = Inr (Some q) \<and>
      make_quotes_request env q ''depth'' = PList (tq # rest) \<and>
      depth_of tq = Inr (get_depth env s x))"
  by (auto simp: get_depth_def get_depth_body_def split: sum.splits option.splits pyval.splits list.splits)


lemma depth_of_sides:
  assumes "depth_of tq = Inr r"
    and "dict_get tq ''depth'' (PDict []) = Inr dd"
  shows "(\<forall>xs. dict_get dd ''buy'' (PList []) = Inr (PList xs) \<longrightarrow>
           (\<exists>ls. list_all2 (\<lambda>v l. level_of v = Inr l) (take 5 xs) ls \<and>
                 bids r = ls @ replicate (5 - length ls) zero_level)) \<and>
         (\<forall>xs. dict_get dd ''sell'' (PList []) = Inr (PList xs) \<longrightarrow>
           (\<exists>ls. list_all2 (\<lambda>v l. level_of v = Inr l) (take 5 xs) ls \<and>
                 asks r = ls @ replicate (5 - length ls) zero_level))"
  using assms
  by (auto simp: depth_of_def bind_exc_eq_Inr Let_def pad_levels_eq side_levels_def)
    (metis levels_of_all2)+

lemma get_depth_shape:
  "length (bids (get_depth env s x)) = 5 \<and> length (asks (get_depth env s x)) = 5 \<and>
   totalbuyqty (get_depth env s x) = sum_list (map quantity (bids (get_depth env s x))) \<and>
   totalsellqty (get_depth env s x) = sum_list (map quantity (asks (get_depth env s x)))"
  using get_depth_cases [of env s x] default_depth_shape depth_of_shape
  by metis

lemma get_quotes_cases:
  "get_quotes env s x = get_default_quote \<or>
   (\<exists>q qd rest. build_query env s x = Inr (Some q) \<and>
      make_quotes_request env q ''all'' = PList (qd # rest) \<and>
      quote_of qd = Inr (get_quotes env s x))"
  by (auto simp: get_quotes_def get_quotes_body_def split: sum.splits option.splits pyval.splits list.splits)







text \<open>
  Claim C5. For every symbol and exchange, a vendor reply of status 200 carrying an empty
  JSON array and a vendor reply with any status other than 200 give the same value, the
  default record with all nine fields zero; \<^verbatim>\<open>get_quotes\<close> returns a record on every
  path, so no failure reaches the caller.
\<close>

theorem get_quotes_failures_indistinguishable:
  assumes "\<forall>q. client_get env1 q ''all'' = Reply 200 (Some (PList []))"
    and "\<forall>q. \<exists>c b. client_get env2 q ''all'' = Reply c b \<and> c \<noteq> 200"
  shows "get_quotes env1 s x = get_default_quote \<and> get_quotes env2 s x = get_default_quote \<and>
         get_default_quote =
           \<lparr>q_bid = 0, q_ask = 0, q_open = 0, q_high = 0, q_low = 0, q_ltp = 0,
            q_prev_close = 0, q_volume = 0, q_oi = 0\<rparr>"
proof -
  have 1: "make_quotes_request env1 q ''all'' = PList []" for q
    using assms(1) by (simp add: make_quotes_request_def)
  have 2: "make_quotes_request env2 q ''all'' = PNone" for q
    using assms(2) [rule_format, of q] by (auto simp: make_quotes_request_def)
  show ?thesis
    using get_quotes_cases [of env1 s x] get_quotes_cases [of env2 s x]
    by (auto simp: 1 2 get_default_quote_def)
qed

theorem get_quotes_failures_indistinguishable_witness:
  "get_quotes (fixed_reply_env (PList [])) ''RELIANCE'' ''NSE'' =
     get_quotes (status_env 500) ''RELIANCE'' ''NSE'' \<and>
   get_quotes (status_env 500) ''RELIANCE'' ''NSE'' =
     \<lparr>q_bid = 0, q_ask = 0, q_open = 0, q_high = 0, q_low = 0, q_ltp = 0,
      q_prev_close = 0, q_volume = 0, q_oi = 0\<rparr>"
  using get_quotes_failures_indistinguishable
    [of "fixed_reply_env (PList [])" "status_env 500" "''RELIANCE''" "''NSE''"]
  by (simp add: fixed_reply_env_def status_env_def)

text \<open>
  Claim C6. Whatever the vendor sends, \<^verbatim>\<open>get_depth\<close> returns exactly five bids and five
  asks, and each total is the sum of the quantities of the five entries returned. The
  result is the default record or is built from the first element of the response; when
  it is built, each side is the conversion of the first five vendor levels followed by
  zero levels up to five.
\<close>

theorem get_depth_five_levels:
  "length (bids (get_depth env s x)) = 5 \<and> length (asks (get_depth env s x)) = 5 \<and>
   totalbuyqty (get_depth env s x) = sum_list (map quantity (bids (get_depth env s x))) \<and>
   totalsellqty (get_depth env s x) = sum_list (map quantity (asks (get_depth env s x))) \<and>
   (get_depth env s x = get_default_depth \<or>
    (\<exists>q tq rest. build_query env s x = Inr (Some q) \<and>
       make_quotes_request env q ''depth'' = PList (tq # rest) \<and>
       depth_of tq = Inr (get_depth env s x))) \<and>
   (\<forall>tq r dd xs.
      depth_of tq = Inr r \<and> dict_get tq ''depth'' (PDict []) = Inr dd \<and>
      dict_get dd ''buy'' (PList []) = Inr (PList xs) \<longrightarrow>
      (\<exists>ls. list_all2 (\<lambda>v l. level_of v = Inr l) (take 5 xs) ls \<and>
            bids r = ls @ replicate (5 - length ls) zero_level)) \<and>
   (\<forall>tq r dd xs.
      depth_of tq = Inr r \<and> dict_get tq ''depth'' (PDict []) = Inr dd \<and>
      dict_get dd ''sell'' (PList []) = Inr (PList xs) \<longrightarrow>
      (\<exists>ls. list_all2 (\<lambda>v l. level_of v = Inr l) (take 5 xs) ls \<and>
            asks r = ls @ replicate (5 - length ls) zero_level))"
  using get_depth_shape [of env s x] get_depth_cases [of env s x] depth_of_sides
  by blast

lemma depth_payload_eval:
  "get_depth (fixed_reply_env depth_payload) ''RELIANCE'' ''NSE'' =
     \<lparr>bids = [\<lparr>price = 101, quantity = 10\<rparr>, \<lparr>price = 100, quantity = 20\<rparr>,
              \<lparr>price = 99, quantity = 30\<rparr>, \<lparr>price = 0, quantity = 0\<rparr>,
              \<lparr>price = 0, quantity = 0\<rparr>],
      asks = [\<lparr>price = 102, quantity = 1\<rparr>, \<lparr>price = 103, quantity = 2\<rparr>,
              \<lparr>price = 104, quantity = 3\<rparr>, \<lparr>price = 105, quantity = 4\<rparr>,
              \<lparr>price = 106, quantity = 5\<rparr>],
      totalbuyqty = 60, totalsellqty = 15\<rparr>"
  by (simp add: get_depth_def get_depth_body_def build_query_def fixed_reply_env_def
    depth_payload_def make_quotes_request_def depth_of_def dict_get_def side_levels_def
    level_of_def get_float_def get_int_def py_float_def py_int_def pad_levels_eq zero_level_def
    upper_def upper_char_def eval_nat_numeral)

theorem get_depth_five_levels_witness:
  "length (bids (get_depth (fixed_reply_env depth_payload) ''RELIANCE'' ''NSE'')) = 5 \<and>
   length (asks (get_depth (fixed_reply_env depth_payload) ''RELIANCE'' ''NSE'')) = 5 \<and>
   totalbuyqty (get_depth (fixed_reply_env depth_payload) ''RELIANCE'' ''NSE'') = 60 \<and>
   totalsellqty (get_depth (fixed_reply_env depth_payload) ''RELIANCE'' ''NSE'') = 15 \<and>
   bids (get_depth (fixed_reply_env depth_payload) ''RELIANCE'' ''NSE'') =
     [\<lparr>price = 101, quantity = 10\<rparr>, \<lparr>price = 100, quantity = 20\<rparr>,
      \<lparr>price = 99, quantity = 30\<rparr>, zero_level, zero_level]"
  using get_depth_five_levels [of "fixed_reply_env depth_payload" "''RELIANCE''" "''NSE''"]
  by (simp add: depth_payload_eval zero_level_def)




section \<open>Properties of the expiry handling\<close>

lemma time_to_expiry_past: "dt_less expiry (now env) \<Longrightarrow> calculate_time_to_expiry env expiry = 0"
  by (simp add: calculate_time_to_expiry_def)

lemma time_to_expiry_not_past:
  "\<not> dt_less expiry (now env) \<Longrightarrow> 1 / 100 \<le> calculate_time_to_expiry env expiry"
  by (simp add: calculate_time_to_expiry_def Let_def)

lemma time_to_expiry_floor:
  assumes "\<not> dt_less expiry (now env)" "to_us expiry - to_us (now env) \<le> 864000000"
  shows "calculate_time_to_expiry env expiry = 1 / 100"
proof -
  have "(of_int (to_us expiry - to_us (now env)) :: rat) \<le> of_int 864000000"
    using assms(2) by (simp only: of_int_le_iff)
  then have "(of_int (to_us expiry - to_us (now env)) / 1000000) / (60 * 60 * 24) \<le> (1 / 100 :: rat)"
    by (simp add: field_simps)
  then show ?thesis
    using assms(1) by (auto simp: calculate_time_to_expiry_def Let_def)
qed

lemma calculate_greeks_parsed:
  assumes "MIBIAN_AVAILABLE env"
    and "parse_option_symbol option_symbol exchange expiry_time =
           Inr (base_symbol, expiry, strike, opt_type)"
  shows "calculate_greeks env option_symbol exchange spot_price option_price interest_rate
           expiry_time =
         (if calculate_time_to_expiry env expiry \<le> 0
          then (False,
                ErrorResponse (Text (''Option has expired on '' @ strftime_d_b_Y expiry)), 400)
          else greeks_handlers
                 (greeks_after_expiry_check env option_symbol exchange base_symbol expiry strike
                    opt_type spot_price option_price interest_rate
                    (calculate_time_to_expiry env expiry)))"
  using assms
  by (simp add: calculate_greeks_def calculate_greeks_body_def check_mibian_availability_def
      Let_def greeks_handlers_def)

text \<open>
  Claim C1. When the pricing library is present and the symbol parses to an expiry that
  lies strictly before the current time, \<^verbatim>\<open>calculate_time_to_expiry\<close> returns \<open>0.0\<close>
  (not a negative duration and not the floor \<open>0.01\<close>), and \<^verbatim>\<open>calculate_greeks\<close> stops
  there with the error response "Option has expired on" followed by the expiry date, and
  status 400; the pricing routine is not reached.
\<close>

theorem expired_option_rejected:
  assumes "MIBIAN_AVAILABLE env"
    and "parse_option_symbol option_symbol exchange expiry_time =
           Inr (base_symbol, expiry, strike, opt_type)"
    and "dt_less expiry (now env)"
  shows "calculate_time_to_expiry env expiry = 0 \<and>
         calculate_greeks env option_symbol exchange spot_price option_price interest_rate
           expiry_time =
         (False, ErrorResponse (Text (''Option has expired on '' @ strftime_d_b_Y expiry)), 400)"
  using assms by (simp add: calculate_greeks_parsed time_to_expiry_past)

lemma after_check_not_expired_text:
  "greeks_handlers
     (greeks_after_expiry_check env option_symbol exchange base_symbol expiry strike opt_type
        spot_price option_price interest_rate t)
   \<noteq> (False, ErrorResponse (Text (''Option has expired on '' @ d)), 400)"
  by (auto simp: greeks_after_expiry_check_def greeks_handlers_def Let_def bind_exc_def le_zero_def
      split: sum.splits pyval.splits if_splits pyexc.splits)

text \<open>
  Claim C10. When the parsed expiry is not before the current time and at most 0.01 days
  (864 seconds) after it, \<^verbatim>\<open>calculate_time_to_expiry\<close> returns exactly \<open>0.01\<close>, and
  \<^verbatim>\<open>calculate_greeks\<close> does not answer "expired" but goes on with the statements after the
  expiry test at a time to expiry of \<open>0.01\<close> days. The value \<open>0.0\<close> is returned for a
  strictly past expiry and for no other.
\<close>

theorem near_expiry_floor:
  assumes "MIBIAN_AVAILABLE env"
    and "parse_option_symbol option_symbol exchange expiry_time =
           Inr (base_symbol, expiry, strike, opt_type)"
    and "\<not> dt_less expiry (now env)"
    and "to_us expiry - to_us (now env) \<le> 864000000"
  shows "calculate_time_to_expiry env expiry = 1 / 100 \<and>
         calculate_greeks env option_symbol exchange spot_price option_price interest_rate
           expiry_time =
           greeks_handlers
             (greeks_after_expiry_check env option_symbol exchange base_symbol expiry strike
                opt_type spot_price option_price interest_rate (1 / 100)) \<and>
         calculate_greeks env option_symbol exchange spot_price option_price interest_rate
           expiry_time \<noteq>
           (False, ErrorResponse (Text (''Option has expired on '' @ strftime_d_b_Y expiry)), 400) \<and>
         (\<forall>e. (calculate_time_to_expiry env e = 0) = dt_less e (now env))"
proof -
  have t: "calculate_time_to_expiry env expiry = 1 / 100"
    using assms(3,4) by (rule time_to_expiry_floor)
  have c: "calculate_greeks env option_symbol exchange spot_price option_price interest_rate
           expiry_time =
           greeks_handlers
             (greeks_after_expiry_check env option_symbol exchange base_symbol expiry strike
                opt_type spot_price option_price interest_rate (1 / 100))"
    using assms(1,2) by (simp add: calculate_greeks_parsed t)
  have z: "(calculate_time_to_expiry env e = 0) = dt_less e (now env)" for e
    using time_to_expiry_past [of e env] time_to_expiry_not_past [of e env]
    by (cases "dt_less e (now env)") auto
  show ?thesis
    using t c z after_check_not_expired_text by simp
qed

lemma parse_nifty:
  "parse_option_symbol ''NIFTY28NOV2424000CE'' ''NFO'' None =
     Inr (''NIFTY'', at_time 2024 11 28 15 30, 24000, ''CE'')"
  by (simp add: parse_option_symbol_def parse_body_def upper_def upper_char_def
    match_option_symbol_def is_upper_def is_digit_def is_strike_char_def Let_def
    expiry_time_of_def month_map_def datetime_new_def days_in_month_def is_leap_def
    int_str_def strip_def is_space_def digits_val_def digit_val_def
    float_str_def decimal_val_def at_time_def)

lemma strftime_nifty: "strftime_d_b_Y (at_time 2024 11 28 15 30) = ''28-Nov-2024''"
  by (simp add: strftime_d_b_Y_def digit_char_def month_abbr_def at_time_def)

lemma to_us_same_day:
  "to_us (at_time y m d h1 m1) - to_us (at_time y m d h2 m2) =
     ((int h1 - int h2) * 3600 + (int m1 - int m2) * 60) * 1000000"
  by (simp add: to_us_def toordinal_def at_time_def algebra_simps)

theorem expired_option_rejected_witness:
  "calculate_greeks (sample_env (at_time 2024 11 29 10 0) []) ''NIFTY28NOV2424000CE'' ''NFO''
     (PFloat 24100) (PFloat 150) None None =
   (False, ErrorResponse (Text ''Option has expired on 28-Nov-2024''), 400)"
proof -
  have a: "MIBIAN_AVAILABLE (sample_env (at_time 2024 11 29 10 0) [])"
    by (simp add: sample_env_def)
  have b: "dt_less (at_time 2024 11 28 15 30) (now (sample_env (at_time 2024 11 29 10 0) []))"
    by (simp add: sample_env_def dt_less_def dt_fields_def at_time_def)
  show ?thesis
    using expired_option_rejected [OF a parse_nifty b] by (simp add: strftime_nifty)
qed

lemma after_check_sample:
  "greeks_after_expiry_check (sample_env t q) ''NIFTY28NOV2424000CE'' ''NFO'' ''NIFTY''
     (at_time 2024 11 28 15 30) 24000 ''CE'' (PFloat 24100) (PFloat 150) None (1 / 100) =
   Inr (True,
     SuccessResponse
       \<lparr>r_symbol = ''NIFTY28NOV2424000CE'', r_exchange = ''NFO'', r_underlying = ''NIFTY'',
        r_strike = 24000, r_option_type = ''CE'', r_expiry_date = ''28-Nov-2024'',
        r_days_to_expiry = 1 / 100, r_spot_price = 24100, r_option_price = 150,
        r_interest_rate = 0, r_implied_volatility = 15,
        r_greeks = \<lparr>g_delta = 1 / 2, g_gamma = 1 / 1000, g_theta = - 10, g_vega = 5,
                    g_rho = 1 / 10\<rparr>\<rparr>, 200)"
  by (simp add: greeks_after_expiry_check_def sample_env_def sample_model_def le_zero_def
      num_of_def DEFAULT_INTEREST_RATES_def py_round_def strftime_nifty Let_def)

theorem near_expiry_floor_witness:
  "calculate_time_to_expiry (sample_env (at_time 2024 11 28 15 20) []) (at_time 2024 11 28 15 30)
     = 1 / 100 \<and>
   calculate_greeks (sample_env (at_time 2024 11 28 15 20) []) ''NIFTY28NOV2424000CE'' ''NFO''
     (PFloat 24100) (PFloat 150) None None =
   (True,
     SuccessResponse
       \<lparr>r_symbol = ''NIFTY28NOV2424000CE'', r_exchange = ''NFO'', r_underlying = ''NIFTY'',
        r_strike = 24000, r_option_type = ''CE'', r_expiry_date = ''28-Nov-2024'',
        r_days_to_expiry = 1 / 100, r_spot_price = 24100, r_option_price = 150,
        r_interest_rate = 0, r_implied_volatility = 15,
        r_greeks = \<lparr>g_delta = 1 / 2, g_gamma = 1 / 1000, g_theta = - 10, g_vega = 5,
                    g_rho = 1 / 10\<rparr>\<rparr>, 200)"
proof -
  have a: "MIBIAN_AVAILABLE (sample_env (at_time 2024 11 28 15 20) [])"
    by (simp add: sample_env_def)
  have n: "now (sample_env (at_time 2024 11 28 15 20) []) = at_time 2024 11 28 15 20"
    by (simp add: sample_env_def)
  have b: "\<not> dt_less (at_time 2024 11 28 15 30) (now (sample_env (at_time 2024 11 28 15 20) []))"
    by (simp add: n) (simp add: dt_less_def dt_fields_def at_time_def)
  have c: "to_us (at_time 2024 11 28 15 30) - to_us (now (sample_env (at_time 2024 11 28 15 20) []))
             \<le> 864000000"
    by (simp add: n to_us_same_day)
  show ?thesis
    using near_expiry_floor [OF a parse_nifty b c, of "PFloat 24100" "PFloat 150" None]
    by (simp add: after_check_sample greeks_handlers_def)
qed

section \<open>Properties of the orchestration and of the expiry time\<close>

lemma fetch_ltp_missing:
  assumes "quotes_service env s x k = Inr (True, resp, sc)" "quote_shaped resp" "ltp_field resp = None"
  shows "fetch_ltp env s x k ft mt = Inr (Inl (False, ErrorResponse (Text mt), 404))"
  using assms
  by (auto simp: fetch_ltp_def quote_shaped_def ltp_field_def dict_get_def
      split: pyval.splits option.splits)

lemma fetch_ltp_found:
  assumes "quotes_service env s x k = Inr (True, resp, sc)" "ltp_field resp = Some v" "truthy v"
  shows "fetch_ltp env s x k ft mt = Inr (Inr v)"
  using assms
  by (auto simp: fetch_ltp_def ltp_field_def dict_get_def split: pyval.splits option.splits)

text \<open>
  Claim C8. After a successful parse, when the quotes service answers the request for the
  underlying with success and a response without a \<^verbatim>\<open>ltp\<close> entry, \<^verbatim>\<open>get_option_greeks\<close>
  returns the error "Underlying LTP not available" with status 404; when the underlying
  has a price and the response for the option has no \<^verbatim>\<open>ltp\<close> entry, it returns "Option LTP
  not available" with status 404. In neither case is \<^verbatim>\<open>calculate_greeks\<close> called.
\<close>

theorem missing_ltp_is_404:
  assumes "parse_option_symbol option_symbol exchange expiry_time =
             Inr (base_symbol, expiry, strike, opt_type)"
  shows "(\<forall>resp sc.
            quotes_service env (spot_symbol_of underlying_symbol base_symbol)
              (spot_exchange_of underlying_exchange base_symbol exchange) api_key
              = Inr (True, resp, sc) \<and>
            quote_shaped resp \<and> ltp_field resp = None \<longrightarrow>
            get_option_greeks env option_symbol exchange interest_rate underlying_symbol
              underlying_exchange expiry_time api_key
              = (False, ErrorResponse (Text ''Underlying LTP not available''), 404)) \<and>
         (\<forall>resp sc v oresp osc.
            quotes_service env (spot_symbol_of underlying_symbol base_symbol)
              (spot_exchange_of underlying_exchange base_symbol exchange) api_key
              = Inr (True, resp, sc) \<and>
            ltp_field resp = Some v \<and> truthy v \<and>
            quotes_service env option_symbol exchange api_key = Inr (True, oresp, osc) \<and>
            quote_shaped oresp \<and> ltp_field oresp = None \<longrightarrow>
            get_option_greeks env option_symbol exchange interest_rate underlying_symbol
              underlying_exchange expiry_time api_key
              = (False, ErrorResponse (Text ''Option LTP not available''), 404))"
  using assms
  by (auto simp: get_option_greeks_def get_option_greeks_body_def Let_def
      fetch_ltp_missing fetch_ltp_found)

theorem missing_ltp_is_404_witness:
  "get_option_greeks (sample_env (at_time 2024 11 20 10 0) quotes_without_ltp)
     ''NIFTY28NOV2424000CE'' ''NFO'' None None None None None
     = (False, ErrorResponse (Text ''Underlying LTP not available''), 404) \<and>
   get_option_greeks (sample_env (at_time 2024 11 20 10 0) quotes_without_option_ltp)
     ''NIFTY28NOV2424000CE'' ''NFO'' None None None None None
     = (False, ErrorResponse (Text ''Option LTP not available''), 404)"
proof -
  have 1: "quotes_service (sample_env (at_time 2024 11 20 10 0) quotes_without_ltp)
             (spot_symbol_of None ''NIFTY'') (spot_exchange_of None ''NIFTY'' ''NFO'') None
           = Inr (True, PDict [(''status'', PStr ''success''),
                               (''data'', PDict [(''volume'', PInt 0)])], 200)"
    by (simp add: sample_env_def quotes_without_ltp_def spot_symbol_of_def)
  have 2: "quotes_service (sample_env (at_time 2024 11 20 10 0) quotes_without_option_ltp)
             (spot_symbol_of None ''NIFTY'') (spot_exchange_of None ''NIFTY'' ''NFO'') None
           = Inr (True, PDict [(''status'', PStr ''success''),
                               (''data'', PDict [(''ltp'', PFloat 24100)])], 200)"
    by (simp add: sample_env_def quotes_without_option_ltp_def spot_symbol_of_def)
  have 3: "quotes_service (sample_env (at_time 2024 11 20 10 0) quotes_without_option_ltp)
             ''NIFTY28NOV2424000CE'' ''NFO'' None
           = Inr (True, PDict [(''status'', PStr ''success'')], 200)"
    by (simp add: sample_env_def quotes_without_option_ltp_def)
  have a: "get_option_greeks (sample_env (at_time 2024 11 20 10 0) quotes_without_ltp)
     ''NIFTY28NOV2424000CE'' ''NFO'' None None None None None
     = (False, ErrorResponse (Text ''Underlying LTP not available''), 404)"
    using missing_ltp_is_404 [OF parse_nifty, THEN conjunct1, rule_format, OF conjI, OF 1]
    by (simp add: quote_shaped_def ltp_field_def)
  have b: "get_option_greeks (sample_env (at_time 2024 11 20 10 0) quotes_without_option_ltp)
     ''NIFTY28NOV2424000CE'' ''NFO'' None None None None None
     = (False, ErrorResponse (Text ''Option LTP not available''), 404)"
    using missing_ltp_is_404 [OF parse_nifty, THEN conjunct2, rule_format,
        of "sample_env (at_time 2024 11 20 10 0) quotes_without_option_ltp" None None None
        _ _ "PFloat 24100"] 2 3
    by (simp add: quote_shaped_def ltp_field_def)
  show ?thesis using a b by simp
qed

lemmas parse_eval_defs =
  parse_option_symbol_def parse_body_def upper_def upper_char_def
  match_option_symbol_def is_upper_def is_digit_def is_strike_char_def Let_def
  expiry_time_of_def custom_time_body_def month_map_def datetime_new_def days_in_month_def
  is_leap_def int_str_def strip_def is_space_def digits_val_def digit_val_def
  float_str_def decimal_val_def at_time_def

lemma parse_usdinr:
  "parse_option_symbol ''USDINR28NOV2483.50CE'' exchange None =
     Inr (''USDINR'',
          at_time 2024 11 28 (nat (fst (default_expiry_time exchange)))
            (nat (snd (default_expiry_time exchange))),
          167 / 2, ''CE'')"
  by (simp add: parse_eval_defs default_expiry_time_def)

text \<open>
  Claim C9. \<^verbatim>\<open>NIFTY28NOV2424000CE\<close> on NFO without override parses to the underlying
  \<^verbatim>\<open>NIFTY\<close>, the expiry 2024-11-28 15:30, the strike 24000 and the side \<^verbatim>\<open>CE\<close>;
  \<^verbatim>\<open>USDINR28NOV2483.50CE\<close> parses, on every exchange, to the strike 83.5.
\<close>

theorem parse_examples:
  "parse_option_symbol ''NIFTY28NOV2424000CE'' ''NFO'' None =
     Inr (''NIFTY'',
          \<lparr>dt_year = 2024, dt_month = 11, dt_day = 28, dt_hour = 15, dt_minute = 30,
           dt_second = 0, dt_microsecond = 0\<rparr>,
          24000, ''CE'') \<and>
   (\<exists>expiry. parse_option_symbol ''USDINR28NOV2483.50CE'' exchange None =
      Inr (''USDINR'', expiry, 83.5, ''CE''))"
  by (simp add: parse_nifty parse_usdinr) (simp add: at_time_def)

theorem parse_examples_witness:
  "\<exists>expiry. parse_option_symbol ''USDINR28NOV2483.50CE'' ''CDS'' None =
      Inr (''USDINR'', expiry, 83.5, ''CE'')"
  using parse_examples [of "''CDS''"] by simp












section \<open>Properties of the symbol pattern\<close>



















end
